theory Spec2Isabelle
  imports
    Complex_Main
    "HOL-Library.Char_ord"
    "HOL-Library.List_Lexorder"
    "HOL-Library.Sublist"
begin

section \<open>The foods dashboard (app.py)\<close>

text \<open>
  The dashboard script filters a static table of foods, derives summary figures and
  charts from the filtered table, and draws a random seven-day meal plan. This theory
  embeds the script's data flow: the filter of lines 65-73, the metric of line 89, the
  sorted views of lines 93 and 104-105, the aggregation of lines 109-112, the meal
  generator of lines 139-150, the plan loop of lines 152-156 and the score loop of
  lines 162-166. Rendering calls (markdown, tables, charts) compute nothing and are
  left out.

  Text is \<^typ>\<open>string\<close>: the UTF-8 bytes of the Python text. The separators the script
  splits and joins on are ASCII, so they never occur inside a multi-byte character.
  Searching is written out for ASCII text only, where a byte is a character; on other
  text it is left to a parameter that stands for the regular expression library.
  Scores are \<^typ>\<open>real\<close>: the exact values of the floats, without rounding error; a
  computed float that can be NaN is a \<open>pyfloat\<close>.
\<close>

subsection \<open>Errors\<close>

datatype py_error = IndexError | ReError | KeyError | NameError

definition bind_res :: "py_error + 'a \<Rightarrow> ('a \<Rightarrow> py_error + 'b) \<Rightarrow> py_error + 'b" where
  "bind_res m f = (case m of Inl e \<Rightarrow> Inl e | Inr x \<Rightarrow> f x)"

subsection \<open>The table\<close>

text \<open>
  Modelled from the spec: the module \<^verbatim>\<open>food\<close> that builds the table \<^verbatim>\<open>df\<close> is not among
  the sources. Its rows follow the spec's data model: Food, Category, Region and Notes
  are strings, Anti_Inflam is a numeric score. The table itself is a parameter of
  every definition below. On such a table \<^verbatim>\<open>dropna()\<close> and \<^verbatim>\<open>na=False\<close> change nothing.
\<close>

record food_item =
  Food :: string
  Category :: string
  Region :: string
  Anti_Inflam :: real
  Notes :: string

text \<open>The filtered table carries one more column (line 73).\<close>

record shown_item = food_item +
  Icon :: string

subsection \<open>Category icons (lines 43-50)\<close>

definition icon_bread :: string where
  "icon_bread = [CHR 0xF0, CHR 0x9F, CHR 0x8D, CHR 0x9E]"

definition icon_poultry :: string where
  "icon_poultry = [CHR 0xF0, CHR 0x9F, CHR 0x8D, CHR 0x97]"

definition icon_broccoli :: string where
  "icon_broccoli = [CHR 0xF0, CHR 0x9F, CHR 0xA5, CHR 0xA6]"

definition icon_apple :: string where
  "icon_apple = [CHR 0xF0, CHR 0x9F, CHR 0x8D, CHR 0x8E]"

definition icon_peanuts :: string where
  "icon_peanuts = [CHR 0xF0, CHR 0x9F, CHR 0xA5, CHR 0x9C]"

definition icon_herb :: string where
  "icon_herb = [CHR 0xF0, CHR 0x9F, CHR 0x8C, CHR 0xBF]"

definition icon_plate :: string where
  "icon_plate = [CHR 0xF0, CHR 0x9F, CHR 0x8D, CHR 0xBD, CHR 0xEF, CHR 0xB8, CHR 0x8F]"

definition category_icons :: "(string \<times> string) list" where
  "category_icons =
    [(''Carbohydrates'', icon_bread),
     (''Proteins'', icon_poultry),
     (''Vegetables'', icon_broccoli),
     (''Fruits'', icon_apple),
     (''Nuts & Seeds'', icon_peanuts),
     (''Spices & Herbs'', icon_herb)]"

text \<open>\<^verbatim>\<open>d.get(k, default)\<close> on a dictionary written as an association list.\<close>

definition dict_get :: "('k \<times> 'v) list \<Rightarrow> 'k \<Rightarrow> 'v \<Rightarrow> 'v" where
  "dict_get d k dflt = (case map_of d k of None \<Rightarrow> dflt | Some v \<Rightarrow> v)"

subsection \<open>Sidebar choices (lines 56-57)\<close>

text \<open>\<^verbatim>\<open>sorted(col.dropna().unique())\<close>: the distinct values of a column, in order.\<close>

definition sorted_unique :: "string list \<Rightarrow> string list" where
  "sorted_unique col = sort (remdups col)"

definition regions :: "food_item list \<Rightarrow> string list" where
  "regions df = sorted_unique (map Region df)"

definition categories :: "food_item list \<Rightarrow> string list" where
  "categories df = sorted_unique (map Category df)"

subsection \<open>Series.str.contains (lines 68-69)\<close>

text \<open>
  \<^verbatim>\<open>Series.str.contains(pat, case=False, na=False)\<close> is called without \<^verbatim>\<open>regex=False\<close>, so
  pandas compiles \<^verbatim>\<open>pat\<close> as a regular expression with \<^verbatim>\<open>re.IGNORECASE\<close> and keeps the
  cells in which \<^verbatim>\<open>search\<close> finds a match. The characters below have a meaning of their
  own in a pattern; every other character stands for itself.
\<close>

definition re_special :: "char set" where
  "re_special = set (''.^$*+?{}[]|()'' @ [CHR 0x5C])"

datatype re_item = Lit char | AnyChar

definition ordinary :: "char \<Rightarrow> bool" where
  "ordinary c = (c \<notin> re_special)"

text \<open>Text in which every character is one byte.\<close>

definition ascii :: "string \<Rightarrow> bool" where
  "ascii s = list_all (\<lambda>c. c \<le> CHR 0x7F) s"

text \<open>
  Case folding of \<^verbatim>\<open>re.IGNORECASE\<close> and the two kinds of pattern item written out here,
  for ASCII text: a character that stands for itself, up to the case of a letter, and
  the dot, which stands for any character but the line feed.
\<close>

definition lower_char :: "char \<Rightarrow> char" where
  "lower_char c =
    (if CHR ''A'' \<le> c \<and> c \<le> CHR ''Z'' then char_of (of_char c + (32::nat)) else c)"

fun item_matches :: "re_item \<Rightarrow> char \<Rightarrow> bool" where
  "item_matches (Lit p) c = (lower_char p = lower_char c)"
| "item_matches AnyChar c = (c \<noteq> CHR 0x0A)"

fun match_here :: "re_item list \<Rightarrow> string \<Rightarrow> bool" where
  "match_here [] s = True"
| "match_here (i # items) [] = False"
| "match_here (i # items) (c # s) = (item_matches i c \<and> match_here items s)"

text \<open>\<^verbatim>\<open>pattern.search(s) is not None\<close>: a match starting at some position of \<open>s\<close>.\<close>

fun re_search :: "re_item list \<Rightarrow> string \<Rightarrow> bool" where
  "re_search items [] = match_here items []"
| "re_search items (c # s) = (match_here items (c # s) \<or> re_search items s)"

text \<open>
  The rest of the regular expression library is a parameter: \<open>lib_error pat\<close> is
  the error \<^verbatim>\<open>re.compile\<close> raises for \<open>pat\<close>, if any, and \<open>lib_search pat s\<close> says whether
  the compiled pattern finds a match in \<open>s\<close>. Every property below holds whatever
  the library does.
\<close>

record re_lib =
  lib_error :: "string \<Rightarrow> py_error option"
  lib_search :: "string \<Rightarrow> string \<Rightarrow> bool"

text \<open>
  Three cases are written out. An ASCII pattern of ordinary characters and dots
  compiles; on ASCII text, and on any text when the pattern is empty, it is searched
  for item by item (bytes are characters there, and only ASCII letters fold onto each
  other). A pattern of ordinary characters, dots and at least one opening
  parenthesis fails to compile: nothing closes the parenthesis, and \<^verbatim>\<open>re.compile\<close>
  raises \<^verbatim>\<open>re.error\<close>. Everything else is left to the library.
\<close>

definition re_compile :: "re_lib \<Rightarrow> string \<Rightarrow> py_error + (string \<Rightarrow> bool)" where
  "re_compile lib pat =
    (if ascii pat \<and> list_all (\<lambda>c. ordinary c \<or> c = CHR ''.'') pat
     then Inr (\<lambda>s. if pat = [] \<or> ascii s
                    then re_search (map (\<lambda>c. if c = CHR ''.'' then AnyChar else Lit c) pat) s
                    else lib_search lib pat s)
     else if CHR ''('' \<in> set pat \<and>
             list_all (\<lambda>c. ordinary c \<or> c = CHR ''.'' \<or> c = CHR ''('') pat
     then Inl ReError
     else (case lib_error lib pat of
             Some e \<Rightarrow> Inl e
           | None \<Rightarrow> Inr (lib_search lib pat)))"

subsection \<open>The filter (lines 65-73)\<close>

definition isin :: "'a \<Rightarrow> 'a list \<Rightarrow> bool" where
  "isin x xs = (x \<in> set xs)"

text \<open>
  The mask of lines 66-69 and the rows it keeps, in the table's order. The pattern is
  compiled once for the column, before any row is looked at.
\<close>

definition filter_rows ::
  "re_lib \<Rightarrow> food_item list \<Rightarrow> string list \<Rightarrow> string list \<Rightarrow> string
    \<Rightarrow> py_error + food_item list"
where
  "filter_rows lib df selected_regions selected_categories search_text =
    (case re_compile lib search_text of
       Inl e \<Rightarrow> Inl e
     | Inr found \<Rightarrow>
         Inr (filter (\<lambda>r. isin (Region r) selected_regions \<and>
                        isin (Category r) selected_categories \<and>
                        (found (Food r) \<or> found (Notes r))) df))"

text \<open>Line 73: the icon of the row's category, the plate for a category without one.\<close>

definition add_icon :: "food_item \<Rightarrow> shown_item" where
  "add_icon r = food_item.extend r
     (shown_item.fields (dict_get category_icons (Category r) icon_plate))"

text \<open>
  Written from the specification's words, for comparison with \<open>re_search\<close>: a field
  contains the query, case-insensitive, when \<open>q\<close> occurs in \<open>s\<close> as a substring once
  both are case-folded.
\<close>

definition ci_contains :: "string \<Rightarrow> string \<Rightarrow> bool" where
  "ci_contains q s = sublist (map lower_char q) (map lower_char s)"

subsection \<open>The metric card (line 89)\<close>

text \<open>
  A float computed by the script is a number or NaN. \<^verbatim>\<open>Series.mean()\<close> of a column
  without rows is NaN; it does not raise.
\<close>

datatype pyfloat = Num real | NaN

definition mean :: "real list \<Rightarrow> pyfloat" where
  "mean xs = (if xs = [] then NaN else Num (sum_list xs / real (length xs)))"

text \<open>
  \<^verbatim>\<open>round(x, 1)\<close> on a float: the nearest tenth, a tie going to the even digit, and NaN
  for NaN.
\<close>

definition round_half_even :: "real \<Rightarrow> int" where
  "round_half_even y =
    (let f = \<lfloor>y\<rfloor>; d = y - of_int f
     in if d < 1 / 2 then f else if 1 / 2 < d then f + 1 else if even f then f else f + 1)"

fun py_round1 :: "pyfloat \<Rightarrow> pyfloat" where
  "py_round1 (Num x) = Num (of_int (round_half_even (x * 10)) / 10)"
| "py_round1 NaN = NaN"

definition avg_score :: "'a food_item_scheme list \<Rightarrow> pyfloat" where
  "avg_score filtered_df =
    (if length filtered_df \<noteq> 0 then py_round1 (mean (map Anti_Inflam filtered_df))
     else Num 0)"

subsection \<open>The sorted views (lines 93 and 104-105)\<close>

text \<open>
  \<^verbatim>\<open>sort_values\<close> returns a new table. The order pandas gives to rows with equal keys is
  not fixed by its default sort; here they keep their order.
\<close>

definition table_df :: "'a food_item_scheme list \<Rightarrow> 'a food_item_scheme list" where
  "table_df filtered_df = sort_key Food filtered_df"

definition top_sorted :: "'a food_item_scheme list \<Rightarrow> 'a food_item_scheme list" where
  "top_sorted filtered_df = take 10 (sort_key (\<lambda>r. - Anti_Inflam r) filtered_df)"

definition label_food :: "'a shown_item_scheme \<Rightarrow> 'a shown_item_scheme" where
  "label_food r = r\<lparr>Food := Icon r @ '' '' @ Food r\<rparr>"

subsection \<open>The aggregation by region (lines 109-112)\<close>

fun join :: "string \<Rightarrow> string list \<Rightarrow> string" where
  "join sep [] = []"
| "join sep [x] = x"
| "join sep (x # y # ys) = x @ sep @ join sep (y # ys)"

text \<open>
  \<^verbatim>\<open>groupby\<close>: every row joins the group of its key, the rows of a group keep the order
  of the table, and the groups come out ordered by key.
\<close>

fun group_insert :: "string \<Rightarrow> 'a \<Rightarrow> (string \<times> 'a list) list \<Rightarrow> (string \<times> 'a list) list" where
  "group_insert k x [] = [(k, [x])]"
| "group_insert k x ((k', xs) # gs) =
    (if k = k' then (k', x # xs) # gs else (k', xs) # group_insert k x gs)"

definition groupby :: "('a \<Rightarrow> string) \<Rightarrow> 'a list \<Rightarrow> (string \<times> 'a list) list" where
  "groupby key rows = sort_key fst (foldr (\<lambda>x. group_insert (key x) x) rows [])"

record region_row =
  agg_Region :: string
  agg_Food :: nat
  agg_Notes :: string

text \<open>
  Written from the specification's words, for comparison with \<open>join\<close>: the
  comma-separated concatenation of a list of texts is the first text, followed by
  every further text with a comma and a space before it.
\<close>

definition comma_separated :: "string list \<Rightarrow> string" where
  "comma_separated xs =
    (case xs of [] \<Rightarrow> [] | x # rest \<Rightarrow> x @ concat (map (\<lambda>y. '', '' @ y) rest))"

definition region_df :: "'a food_item_scheme list \<Rightarrow> region_row list" where
  "region_df filtered_df =
    map (\<lambda>(k, g). \<lparr>agg_Region = k, agg_Food = length (map Food g),
                    agg_Notes = join '', '' (map Notes g)\<rparr>)
      (groupby Region filtered_df)"

subsection \<open>The meal generator (lines 139-150)\<close>

text \<open>
  \<^verbatim>\<open>random.choice\<close> draws from a source of random numbers: \<open>g\<close> is the source and \<open>n\<close>
  counts the draws made so far. On an empty list it raises \<^verbatim>\<open>IndexError\<close>.
\<close>

type_synonym rng = "nat \<Rightarrow> nat"

definition random_choice :: "rng \<Rightarrow> nat \<Rightarrow> 'a list \<Rightarrow> py_error + ('a \<times> nat)" where
  "random_choice g n xs =
    (if xs = [] then Inl IndexError else Inr (xs ! (g n mod length xs), Suc n))"

record day_meals =
  Breakfast :: string
  Lunch :: string
  Dinner :: string
  Snack :: string

text \<open>\<^verbatim>\<open>lf[lf['Category'] == c]['Food'].tolist()\<close>\<close>

definition foods_in :: "string \<Rightarrow> 'a food_item_scheme list \<Rightarrow> string list" where
  "foods_in c lf = map Food (filter (\<lambda>r. Category r = c) lf)"

definition generate_day_meal ::
  "rng \<Rightarrow> nat \<Rightarrow> 'a food_item_scheme list \<Rightarrow> py_error + (day_meals \<times> nat)"
where
  "generate_day_meal g n0 lf =
    (let carbs = foods_in ''Carbohydrates'' lf;
         proteins = foods_in ''Proteins'' lf;
         vegs = foods_in ''Vegetables'' lf;
         fruits = foods_in ''Fruits'' lf;
         carb_icon = dict_get category_icons ''Carbohydrates'' icon_bread;
         protein_icon = dict_get category_icons ''Proteins'' icon_poultry;
         veg_icon = dict_get category_icons ''Vegetables'' icon_broccoli;
         fruit_icon = dict_get category_icons ''Fruits'' icon_apple
     in
     bind_res
       (if carbs \<noteq> [] \<and> fruits \<noteq> [] then
          bind_res (random_choice g n0 carbs) (\<lambda>(c, n).
          bind_res (random_choice g n fruits) (\<lambda>(f, n).
          Inr (carb_icon @ '' '' @ c @ '' + '' @ fruit_icon @ '' '' @ f, n)))
        else Inr ([], n0))
       (\<lambda>(breakfast, n1).
     bind_res
       (if carbs \<noteq> [] \<and> proteins \<noteq> [] \<and> vegs \<noteq> [] then
          bind_res (random_choice g n1 carbs) (\<lambda>(c, n).
          bind_res (random_choice g n proteins) (\<lambda>(p, n).
          bind_res (random_choice g n vegs) (\<lambda>(v, n).
          Inr (carb_icon @ '' '' @ c @ '' + '' @ protein_icon @ '' '' @ p @ '' + '' @
               veg_icon @ '' '' @ v, n))))
        else Inr ([], n1))
       (\<lambda>(lunch, n2).
     bind_res
       (if carbs \<noteq> [] \<and> proteins \<noteq> [] \<and> vegs \<noteq> [] then
          bind_res (random_choice g n2 carbs) (\<lambda>(c, n).
          bind_res (random_choice g n proteins) (\<lambda>(p, n).
          bind_res (random_choice g n vegs) (\<lambda>(v, n).
          Inr (carb_icon @ '' '' @ c @ '' + '' @ protein_icon @ '' '' @ p @ '' + '' @
               veg_icon @ '' '' @ v, n))))
        else Inr ([], n2))
       (\<lambda>(dinner, n3).
     bind_res
       (if fruits \<noteq> [] then
          bind_res (random_choice g n3 fruits) (\<lambda>(f, n).
          Inr (fruit_icon @ '' '' @ f, n))
        else Inr ([], n3))
       (\<lambda>(snack, n4).
     Inr (\<lparr>Breakfast = breakfast, Lunch = lunch, Dinner = dinner, Snack = snack\<rparr>, n4))))))"

subsection \<open>The plan loop (lines 153-156)\<close>

text \<open>
  The plan is a dictionary keyed by the text of a date. A date is the number of its
  day; \<^verbatim>\<open>str\<close> maps different dates to different texts, so the day number stands for
  the key. \<^verbatim>\<open>d[k] = v\<close> replaces the value of a key that is present, where it stands, and
  appends a key that is not.
\<close>

fun dict_set :: "'k \<Rightarrow> 'v \<Rightarrow> ('k \<times> 'v) list \<Rightarrow> ('k \<times> 'v) list" where
  "dict_set k v [] = [(k, v)]"
| "dict_set k v ((k', v') # d) = (if k' = k then (k', v) # d else (k', v') # dict_set k v d)"

text \<open>
  \<^verbatim>\<open>pd.Timestamp.now().date()\<close> stands inside the loop and is read once per pass:
  \<open>clock i\<close> is the date the clock shows at pass \<open>i\<close>.
\<close>

fun plan_loop ::
  "(nat \<Rightarrow> int) \<Rightarrow> rng \<Rightarrow> 'a food_item_scheme list \<Rightarrow> nat list \<Rightarrow> nat \<Rightarrow> (int \<times> day_meals) list
    \<Rightarrow> py_error + ((int \<times> day_meals) list \<times> nat)"
where
  "plan_loop clock g filtered_df [] n plan = Inr (plan, n)"
| "plan_loop clock g filtered_df (i # rest) n plan =
    (let day = clock i + int i
     in bind_res (generate_day_meal g n filtered_df) (\<lambda>(meals, n').
          plan_loop clock g filtered_df rest n' (dict_set day meals plan)))"

definition generate_plan ::
  "(nat \<Rightarrow> int) \<Rightarrow> rng \<Rightarrow> 'a food_item_scheme list \<Rightarrow> py_error + ((int \<times> day_meals) list \<times> nat)"
where
  "generate_plan clock g filtered_df = plan_loop clock g filtered_df [0..<7] 0 []"

subsection \<open>The score loop (lines 162-166)\<close>

text \<open>
  \<^verbatim>\<open>s.split(sep, maxsplit)\<close> for a separator that is not empty (the script splits on
  \<^verbatim>\<open>' '\<close> and \<^verbatim>\<open>' + '\<close> only): \<open>s\<close> is cut at the leftmost occurrences of \<open>sep\<close>, at
  most \<open>maxsplit\<close> times when a bound is given. \<open>acc\<close> holds the part being read,
  reversed.
\<close>

function split_from :: "string \<Rightarrow> nat option \<Rightarrow> string \<Rightarrow> string \<Rightarrow> string list" where
  "split_from sep maxsplit acc s =
    (if s = [] then [rev acc]
     else if sep \<noteq> [] \<and> maxsplit \<noteq> Some 0 \<and> prefix sep s
     then rev acc # split_from sep (map_option (\<lambda>k. k - 1) maxsplit) [] (drop (length sep) s)
     else split_from sep maxsplit (hd s # acc) (tl s))"
  by pat_completeness auto
termination
  by (relation "measure (\<lambda>(sep, maxsplit, acc, s). length s)") auto

declare split_from.simps [simp del]

definition py_split :: "string \<Rightarrow> nat option \<Rightarrow> string \<Rightarrow> string list" where
  "py_split sep maxsplit s = split_from sep maxsplit [] s"

text \<open>\<^verbatim>\<open>xs[i]\<close>, which raises \<^verbatim>\<open>IndexError\<close> past the end.\<close>

definition item_at :: "'a list \<Rightarrow> nat \<Rightarrow> py_error + 'a" where
  "item_at xs i = (if i < length xs then Inr (xs ! i) else Inl IndexError)"

text \<open>\<^verbatim>\<open>v.split(' ', 1)[1]\<close>\<close>

definition after_icon :: "string \<Rightarrow> py_error + string" where
  "after_icon v = item_at (py_split '' '' (Some 1) v) 1"

text \<open>A list comprehension whose element expression can raise.\<close>

fun map_res :: "('a \<Rightarrow> py_error + 'b) \<Rightarrow> 'a list \<Rightarrow> py_error + 'b list" where
  "map_res f [] = Inr []"
| "map_res f (x # xs) =
    bind_res (f x) (\<lambda>y. bind_res (map_res f xs) (\<lambda>ys. Inr (y # ys)))"

text \<open>\<^verbatim>\<open>day_meals.values()\<close>: the slots in the order the dictionary was written.\<close>

definition slot_values :: "day_meals \<Rightarrow> string list" where
  "slot_values d = [Breakfast d, Lunch d, Dinner d, Snack d]"

definition foods_list :: "day_meals \<Rightarrow> py_error + string list" where
  "foods_list d =
    bind_res (map_res after_icon (filter (\<lambda>v. v \<noteq> []) (slot_values d))) (\<lambda>parts.
      Inr (py_split '' + '' None (join '' + '' parts)))"

definition score_sum :: "'a food_item_scheme list \<Rightarrow> string list \<Rightarrow> real" where
  "score_sum filtered_df fl =
    sum_list (map Anti_Inflam (filter (\<lambda>r. isin (Food r) fl) filtered_df))"

definition day_score :: "'a food_item_scheme list \<Rightarrow> string list \<Rightarrow> real" where
  "day_score filtered_df fl =
    (if fl \<noteq> [] then score_sum filtered_df fl / real (length fl) else 0)"

fun daily_scores :: "'a food_item_scheme list \<Rightarrow> day_meals list \<Rightarrow> py_error + real list" where
  "daily_scores filtered_df [] = Inr []"
| "daily_scores filtered_df (d # ds) =
    bind_res (foods_list d) (\<lambda>fl.
    bind_res (daily_scores filtered_df ds) (\<lambda>rest.
      Inr (day_score filtered_df fl # rest)))"

text \<open>\<^verbatim>\<open>plan.values()\<close>\<close>

definition dict_values :: "('k \<times> 'v) list \<Rightarrow> 'v list" where
  "dict_values d = map snd d"

subsection \<open>Tables as objects\<close>

text \<open>
  A pandas table is an object, and a Python variable holds a reference to it. The
  store maps addresses to tables; \<open>fresh\<close> is the next unused address. Indexing with a
  mask, \<^verbatim>\<open>copy\<close>, \<^verbatim>\<open>sort_values\<close>, \<^verbatim>\<open>head\<close>, a column selection and \<^verbatim>\<open>agg\<close> each build a
  new table; an assignment to a column writes to the table the variable refers to.
\<close>

datatype frame =
    Foods "food_item list"
  | Shown "shown_item list"
  | Agg "region_row list"

record state =
  objs :: "nat \<Rightarrow> frame option"
  fresh :: nat
  var_df :: nat
  var_filtered_df :: "nat option"
  var_table_df :: "nat option"
  var_top_foods :: "nat option"
  var_region_df :: "nat option"
  var_plan :: "(int \<times> day_meals) list option"
  var_daily_scores :: "real list option"

definition new_obj :: "frame \<Rightarrow> state \<Rightarrow> nat \<times> state" where
  "new_obj f s = (fresh s, s\<lparr>objs := (objs s)(fresh s := Some f), fresh := Suc (fresh s)\<rparr>)"

definition set_obj :: "nat \<Rightarrow> frame \<Rightarrow> state \<Rightarrow> state" where
  "set_obj a f s = s\<lparr>objs := (objs s)(a := Some f)\<rparr>"

text \<open>The state after \<^verbatim>\<open>from food import df\<close>: one table, and no other variable bound.\<close>

definition initial :: "food_item list \<Rightarrow> state" where
  "initial df =
    \<lparr>objs = (\<lambda>a. None)(0 := Some (Foods df)), fresh = 1, var_df = 0,
     var_filtered_df = None, var_table_df = None, var_top_foods = None,
     var_region_df = None, var_plan = None, var_daily_scores = None\<rparr>"

text \<open>
  The operations of the script. Each stands for the lines named beside it, and each
  either finishes or raises.
\<close>

datatype op =
    Filter "string list" "string list" string
  | AddIcon
  | TableView
  | TopFoods
  | Aggregate
  | MealPlan "nat \<Rightarrow> int" rng

datatype status = Done | Raised py_error

text \<open>Lines 65-70: the mask reads \<^verbatim>\<open>df\<close>; \<^verbatim>\<open>df[mask]\<close> and \<^verbatim>\<open>.copy()\<close> each build a table.\<close>

definition exec_filter ::
  "re_lib \<Rightarrow> string list \<Rightarrow> string list \<Rightarrow> string \<Rightarrow> state \<Rightarrow> status \<times> state"
where
  "exec_filter lib rs cs q s =
    (case objs s (var_df s) of
       Some (Foods df) \<Rightarrow>
         (case filter_rows lib df rs cs q of
            Inl e \<Rightarrow> (Raised e, s)
          | Inr rows \<Rightarrow>
              (let (masked, s1) = new_obj (Foods rows) s;
                   (copied, s2) = new_obj (Foods rows) s1
               in (Done, s2\<lparr>var_filtered_df := Some copied\<rparr>)))
     | _ \<Rightarrow> (Raised KeyError, s))"

text \<open>Line 73: the column is written into the table \<^verbatim>\<open>filtered_df\<close> refers to.\<close>

definition exec_add_icon :: "state \<Rightarrow> status \<times> state" where
  "exec_add_icon s =
    (case var_filtered_df s of
       None \<Rightarrow> (Raised NameError, s)
     | Some a \<Rightarrow>
         (case objs s a of
            Some (Foods rows) \<Rightarrow> (Done, set_obj a (Shown (map add_icon rows)) s)
          | Some (Shown rows) \<Rightarrow>
              (Done, set_obj a (Shown (map (add_icon \<circ> food_item.truncate) rows)) s)
          | _ \<Rightarrow> (Raised KeyError, s)))"

text \<open>Line 93: \<^verbatim>\<open>sort_values\<close>, then the selection of six columns, the icon among them.\<close>

definition exec_table_view :: "state \<Rightarrow> status \<times> state" where
  "exec_table_view s =
    (case var_filtered_df s of
       None \<Rightarrow> (Raised NameError, s)
     | Some a \<Rightarrow>
         (case objs s a of
            Some (Shown rows) \<Rightarrow>
              (let (sorted_view, s1) = new_obj (Shown (table_df rows)) s;
                   (selected, s2) = new_obj (Shown (table_df rows)) s1
               in (Done, s2\<lparr>var_table_df := Some selected\<rparr>))
          | Some (Foods rows) \<Rightarrow>
              (let (sorted_view, s1) = new_obj (Foods (table_df rows)) s
               in (Raised KeyError, s1))
          | _ \<Rightarrow> (Raised KeyError, s)))"

text \<open>
  Lines 104-105: \<^verbatim>\<open>sort_values\<close> and \<^verbatim>\<open>head\<close> build tables and \<^verbatim>\<open>top_foods\<close> is bound;
  then the Food column of that table is overwritten, which needs its Icon column.
\<close>

definition exec_top_foods :: "state \<Rightarrow> status \<times> state" where
  "exec_top_foods s =
    (case var_filtered_df s of
       None \<Rightarrow> (Raised NameError, s)
     | Some a \<Rightarrow>
         (case objs s a of
            Some (Shown rows) \<Rightarrow>
              (let (sorted_view, s1) =
                     new_obj (Shown (sort_key (\<lambda>r. - Anti_Inflam r) rows)) s;
                   (top, s2) = new_obj (Shown (top_sorted rows)) s1;
                   s3 = s2\<lparr>var_top_foods := Some top\<rparr>
               in (Done, set_obj top (Shown (map label_food (top_sorted rows))) s3))
          | Some (Foods rows) \<Rightarrow>
              (let (sorted_view, s1) =
                     new_obj (Foods (sort_key (\<lambda>r. - Anti_Inflam r) rows)) s;
                   (top, s2) = new_obj (Foods (top_sorted rows)) s1
               in (Raised KeyError, s2\<lparr>var_top_foods := Some top\<rparr>))
          | _ \<Rightarrow> (Raised KeyError, s)))"

text \<open>Lines 109-112: \<^verbatim>\<open>agg\<close> and \<^verbatim>\<open>reset_index\<close> each build a table.\<close>

definition exec_aggregate :: "state \<Rightarrow> status \<times> state" where
  "exec_aggregate s =
    (case var_filtered_df s of
       None \<Rightarrow> (Raised NameError, s)
     | Some a \<Rightarrow>
         (case objs s a of
            Some (Shown rows) \<Rightarrow>
              (let (grouped, s1) = new_obj (Agg (region_df rows)) s;
                   (flat, s2) = new_obj (Agg (region_df rows)) s1
               in (Done, s2\<lparr>var_region_df := Some flat\<rparr>))
          | Some (Foods rows) \<Rightarrow>
              (let (grouped, s1) = new_obj (Agg (region_df rows)) s;
                   (flat, s2) = new_obj (Agg (region_df rows)) s1
               in (Done, s2\<lparr>var_region_df := Some flat\<rparr>))
          | _ \<Rightarrow> (Raised KeyError, s)))"

text \<open>
  Lines 153-166, after the button is pressed: the plan is bound once its loop is
  through, the scores once theirs is. Both only read \<^verbatim>\<open>filtered_df\<close>.
\<close>

definition plan_and_scores ::
  "(nat \<Rightarrow> int) \<Rightarrow> rng \<Rightarrow> 'a food_item_scheme list \<Rightarrow> state \<Rightarrow> status \<times> state"
where
  "plan_and_scores clock g rows s =
    (case generate_plan clock g rows of
       Inl e \<Rightarrow> (Raised e, s)
     | Inr (plan, n) \<Rightarrow>
         (let s1 = s\<lparr>var_plan := Some plan\<rparr>
          in case daily_scores rows (dict_values plan) of
               Inl e \<Rightarrow> (Raised e, s1)
             | Inr scores \<Rightarrow> (Done, s1\<lparr>var_daily_scores := Some scores\<rparr>)))"

definition exec_meal_plan :: "(nat \<Rightarrow> int) \<Rightarrow> rng \<Rightarrow> state \<Rightarrow> status \<times> state" where
  "exec_meal_plan clock g s =
    (case var_filtered_df s of
       None \<Rightarrow> (Raised NameError, s)
     | Some a \<Rightarrow>
         (case objs s a of
            Some (Shown rows) \<Rightarrow> plan_and_scores clock g rows s
          | Some (Foods rows) \<Rightarrow> plan_and_scores clock g rows s
          | _ \<Rightarrow> (Raised KeyError, s)))"

fun exec :: "re_lib \<Rightarrow> op \<Rightarrow> state \<Rightarrow> status \<times> state" where
  "exec lib (Filter rs cs q) s = exec_filter lib rs cs q s"
| "exec lib AddIcon s = exec_add_icon s"
| "exec lib TableView s = exec_table_view s"
| "exec lib TopFoods s = exec_top_foods s"
| "exec lib Aggregate s = exec_aggregate s"
| "exec lib (MealPlan clock g) s = exec_meal_plan clock g s"

text \<open>A run stops at the first operation that raises, as the script does.\<close>

fun run :: "re_lib \<Rightarrow> op list \<Rightarrow> state \<Rightarrow> status \<times> state" where
  "run lib [] s = (Done, s)"
| "run lib (x # xs) s =
    (case exec lib x s of
       (Done, s') \<Rightarrow> run lib xs s'
     | (Raised e, s') \<Rightarrow> (Raised e, s'))"

text \<open>
  Every interaction runs the script again from the top. The module \<^verbatim>\<open>food\<close> is
  imported once, so \<^verbatim>\<open>df\<close> refers to the same object in every run; the other names of
  the script start unbound, and the tables of earlier runs stay where they are.
\<close>

definition fresh_names :: "state \<Rightarrow> state" where
  "fresh_names s =
    s\<lparr>var_filtered_df := None, var_table_df := None, var_top_foods := None,
      var_region_df := None, var_plan := None, var_daily_scores := None\<rparr>"

fun sessions :: "re_lib \<Rightarrow> op list list \<Rightarrow> state \<Rightarrow> state" where
  "sessions lib [] s = s"
| "sessions lib (ops # rest) s = sessions lib rest (snd (run lib ops (fresh_names s)))"

text \<open>The script from top to bottom, for one set of sidebar choices.\<close>

definition script :: "string list \<Rightarrow> string list \<Rightarrow> string \<Rightarrow> bool \<Rightarrow> (nat \<Rightarrow> int) \<Rightarrow> rng \<Rightarrow> op list" where
  "script rs cs q button clock g =
    [Filter rs cs q, AddIcon, TableView, TopFoods, Aggregate] @
    (if button then [MealPlan clock g] else [])"

subsection \<open>Tables that stay apart\<close>

text \<open>
  The table at address \<open>a\<close> was built before the state \<open>s\<close>, and neither variable
  through which the script writes to a table refers to it.
\<close>

definition separate :: "nat \<Rightarrow> state \<Rightarrow> bool" where
  "separate a s =
    (a < fresh s \<and> var_filtered_df s \<noteq> Some a \<and> var_top_foods s \<noteq> Some a)"

definition same_at :: "nat \<Rightarrow> state \<Rightarrow> state \<Rightarrow> bool" where
  "same_at a s s' = (separate a s' \<and> objs s' a = objs s a \<and> var_df s' = var_df s)"

subsection \<open>Sample tables\<close>

text \<open>Small tables on which the properties below are evaluated.\<close>

definition rice :: food_item where
  "rice = \<lparr>Food = ''Rice'', Category = ''Carbohydrates'', Region = ''West'',
            Anti_Inflam = 4, Notes = ''Staple (boiled)''\<rparr>"

definition apple :: food_item where
  "apple = \<lparr>Food = ''Apple'', Category = ''Fruits'', Region = ''North'',
             Anti_Inflam = 8, Notes = ''Fresh''\<rparr>"

definition nameless :: food_item where
  "nameless = \<lparr>Food = [], Category = ''Nuts & Seeds'', Region = ''West'',
                Anti_Inflam = 5, Notes = ''Unnamed''\<rparr>"

definition yam :: food_item where
  "yam = \<lparr>Food = ''Yam'', Category = ''Carbohydrates'', Region = ''West'',
           Anti_Inflam = 3, Notes = ''Pounded''\<rparr>"

text \<open>A library under which every pattern compiles and is found in every text.\<close>

definition finds_all :: re_lib where
  "finds_all = \<lparr>lib_error = (\<lambda>pat. None), lib_search = (\<lambda>pat s. True)\<rparr>"

section \<open>Properties\<close>

subsection \<open>Results and errors\<close>

lemma bind_res_Inr: "bind_res (Inr x) f = f x"
  by (simp add: bind_res_def)

lemma bind_res_Inl: "bind_res (Inl e) f = Inl e"
  by (simp add: bind_res_def)

subsection \<open>The filter\<close>

text \<open>A pattern of ordinary characters is searched for as a case-folded substring.\<close>

lemma match_here_literal:
  "match_here (map Lit q) s = prefix (map lower_char q) (map lower_char s)"
proof (induction q arbitrary: s)
  case Nil
  show ?case by simp
next
  case (Cons c q)
  show ?case
  proof (cases s)
    case Nil
    then show ?thesis by simp
  next
    case (Cons d s')
    with Cons.IH show ?thesis by auto
  qed
qed

lemma re_search_literal: "re_search (map Lit q) s = ci_contains q s"
proof (induction s)
  case Nil
  show ?case by (cases q) (simp_all add: ci_contains_def)
next
  case (Cons d s)
  then show ?case
    by (simp add: ci_contains_def sublist_Cons_right match_here_literal del: match_here.simps)
qed

lemma re_compile_literal:
  assumes "list_all ordinary q" and "ascii q"
  shows "re_compile lib q =
    Inr (\<lambda>s. if q = [] \<or> ascii s then re_search (map Lit q) s else lib_search lib q s)"
proof -
  have dot: "\<not> ordinary (CHR ''.'')"
    by (simp add: ordinary_def re_special_def)
  from assms have "list_all (\<lambda>c. ordinary c \<or> c = CHR ''.'') q"
    by (simp add: list_all_iff)
  then have c: "list_all (\<lambda>c. ordinary c \<or> c = CHR ''.'') q = True"
    by simp
  from assms dot
  have m: "map (\<lambda>c. if c = CHR ''.'' then AnyChar else Lit c) q = map Lit q"
    by (auto simp: list_all_iff)
  from assms(2) show ?thesis
    unfolding re_compile_def m c by simp
qed

text \<open>
  For an ASCII query without special characters, on a table of ASCII text, the
  filter keeps exactly the rows whose region and category are selected and whose
  Food or Notes contains the query, whatever the case of the letters.
\<close>

lemma filter_rows_literal:
  assumes "list_all ordinary q" and "ascii q"
    and "\<And>r. r \<in> set df \<Longrightarrow> ascii (Food r) \<and> ascii (Notes r)"
  shows "filter_rows lib df rs cs q =
    Inr (filter (\<lambda>r. Region r \<in> set rs \<and> Category r \<in> set cs \<and>
                    (ci_contains q (Food r) \<or> ci_contains q (Notes r))) df)"
proof -
  have "filter (\<lambda>r. isin (Region r) rs \<and> isin (Category r) cs \<and>
          ((if q = [] \<or> ascii (Food r) then re_search (map Lit q) (Food r)
            else lib_search lib q (Food r)) \<or>
           (if q = [] \<or> ascii (Notes r) then re_search (map Lit q) (Notes r)
            else lib_search lib q (Notes r)))) df =
        filter (\<lambda>r. Region r \<in> set rs \<and> Category r \<in> set cs \<and>
          (ci_contains q (Food r) \<or> ci_contains q (Notes r))) df"
    using assms(3) by (intro filter_cong refl) (simp add: re_search_literal isin_def)
  then show ?thesis
    by (simp add: filter_rows_def re_compile_literal [OF assms(1,2)])
qed

text \<open>With no region selected, or no category, such a query keeps no row.\<close>

lemma filter_rows_nothing_selected:
  assumes "list_all ordinary q" and "ascii q"
  shows "filter_rows lib df [] cs q = Inr []"
    and "filter_rows lib df rs [] q = Inr []"
  by (simp_all add: filter_rows_def re_compile_literal [OF assms] isin_def)

lemma re_search_empty: "re_search [] s"
  by (cases s) simp_all

text \<open>
  Claim C1. A row is in the filter's output if and only if its region and category
  are selected and its Food or Notes contains the query as a case-insensitive
  substring, for every query. The script hands the query to pandas as a regular
  expression. For the query \<^verbatim>\<open>(\<close> the filter raises \<^verbatim>\<open>re.error\<close> and has no output,
  although the Notes of the row contain the query; for the query \<^verbatim>\<open>.\<close> it keeps a row
  neither of whose fields contains a dot.
\<close>

theorem filter_rows_special_query:
  "filter_rows lib [rice] [''West''] [''Carbohydrates''] ''('' = Inl ReError \<and>
   ci_contains ''('' (Notes rice) \<and>
   filter_rows lib [rice] [''West''] [''Carbohydrates''] ''.'' = Inr [rice] \<and>
   \<not> ci_contains ''.'' (Food rice) \<and> \<not> ci_contains ''.'' (Notes rice)"
  by code_simp

text \<open>
  Claim C5. With every region and every category of the table selected and an empty
  query, the filter returns the table, row for row.
\<close>

theorem filter_rows_all_selected:
  "filter_rows lib df (regions df) (categories df) [] = Inr df"
proof -
  have "re_compile lib [] = Inr (\<lambda>s. True)"
    by (simp add: re_compile_def ascii_def re_search_empty)
  moreover have "filter (\<lambda>r. isin (Region r) (regions df) \<and>
       isin (Category r) (categories df)) df = df"
    by (rule filter_True) (simp add: isin_def regions_def categories_def sorted_unique_def)
  ultimately show ?thesis by (simp add: filter_rows_def)
qed

subsection \<open>The metric card\<close>

text \<open>
  Claim C6. For an empty filtered table the average score on the card is 0, and
  computing it raises nothing. The rounded mean of no scores is NaN; the test on the
  number of rows keeps it off the card.
\<close>

theorem avg_score_empty: "avg_score [] = Num 0 \<and> py_round1 (mean []) = NaN"
  by (simp add: avg_score_def mean_def)

subsection \<open>The aggregation by region\<close>

lemma map_fst_group_insert:
  "map fst (group_insert k x gs) =
    (if k \<in> set (map fst gs) then map fst gs else map fst gs @ [k])"
proof (induction gs)
  case Nil
  show ?case by simp
next
  case (Cons p gs)
  obtain k' xs where p: "p = (k', xs)" by (cases p)
  show ?case
  proof (cases "k = k'")
    case True
    with p show ?thesis by simp
  next
    case False
    with p Cons.IH show ?thesis by (cases "k \<in> set (map fst gs)") simp_all
  qed
qed

lemma map_of_group_insert:
  "map_of (group_insert k x gs) =
    (map_of gs)(k \<mapsto> x # (case map_of gs k of None \<Rightarrow> [] | Some xs \<Rightarrow> xs))"
proof (induction gs)
  case Nil
  show ?case by simp
next
  case (Cons p gs)
  obtain k' xs where p: "p = (k', xs)" by (cases p)
  show ?case
  proof (cases "k = k'")
    case True
    with p show ?thesis by (simp add: fun_eq_iff)
  next
    case False
    with p Cons.IH show ?thesis by (simp add: fun_eq_iff)
  qed
qed

lemma groups_keys:
  "distinct (map fst (foldr (\<lambda>x. group_insert (key x) x) rows [])) \<and>
   set (map fst (foldr (\<lambda>x. group_insert (key x) x) rows [])) = key ` set rows"
  by (induction rows) (auto simp: map_fst_group_insert)

lemma groups_lookup:
  "map_of (foldr (\<lambda>x. group_insert (key x) x) rows []) k =
    (if k \<in> key ` set rows then Some (filter (\<lambda>x. key x = k) rows) else None)"
proof (induction rows)
  case Nil
  show ?case by simp
next
  case (Cons r rows)
  show ?case
  proof (cases "key r = k")
    case True
    have "filter (\<lambda>x. key x = k) rows = []" if "k \<notin> key ` set rows"
      using that by (auto simp: filter_empty_conv)
    with True Cons.IH show ?thesis by (auto simp: map_of_group_insert)
  next
    case False
    with Cons.IH show ?thesis by (simp add: map_of_group_insert)
  qed
qed

lemma groups_members:
  assumes "p \<in> set (foldr (\<lambda>x. group_insert (key x) x) rows [])"
  shows "snd p = filter (\<lambda>x. key x = fst p) rows"
proof -
  let ?G = "foldr (\<lambda>x. group_insert (key x) x) rows []"
  have "distinct (map fst ?G)" by (simp add: groups_keys)
  with assms have "map_of ?G (fst p) = Some (snd p)" by simp
  then show ?thesis by (simp add: groups_lookup split: if_splits)
qed

text \<open>One group per key of the table, in key order, holding the rows of that key.\<close>

lemma groupby_eq:
  "groupby key rows =
    map (\<lambda>k. (k, filter (\<lambda>x. key x = k) rows)) (sorted_unique (map key rows))"
proof -
  let ?G = "foldr (\<lambda>x. group_insert (key x) x) rows []"
  let ?S = "sort_key fst ?G"
  have keys: "map fst ?S = sorted_unique (map key rows)"
  proof (rule sorted_distinct_set_unique)
    show "sorted (map fst ?S)" by (rule sorted_sort_key)
    show "distinct (map fst ?S)"
      using groups_keys [of key rows] by (simp add: distinct_map)
    show "sorted (sorted_unique (map key rows))" by (simp add: sorted_unique_def)
    show "distinct (sorted_unique (map key rows))" by (simp add: sorted_unique_def)
    show "set (map fst ?S) = set (sorted_unique (map key rows))"
      using groups_keys [of key rows] by (simp add: sorted_unique_def)
  qed
  have "map (\<lambda>p. (fst p, filter (\<lambda>x. key x = fst p) rows)) ?S = ?S"
  proof (rule map_idI)
    fix p assume "p \<in> set ?S"
    then have "p \<in> set ?G" by simp
    from groups_members [OF this] show "(fst p, filter (\<lambda>x. key x = fst p) rows) = p"
      by (cases p) simp
  qed
  then have "?S = map (\<lambda>k. (k, filter (\<lambda>x. key x = k) rows)) (map fst ?S)"
    by (simp add: comp_def)
  with keys show ?thesis by (simp add: groupby_def)
qed

text \<open>\<^verbatim>\<open>sep.join(xs)\<close> puts the separator before every text but the first.\<close>

lemma join_concat:
  "join sep xs = (case xs of [] \<Rightarrow> [] | x # rest \<Rightarrow> x @ concat (map (\<lambda>y. sep @ y) rest))"
proof (induction xs)
  case Nil
  show ?case by simp
next
  case (Cons x xs)
  then show ?case by (cases xs) simp_all
qed

lemma join_comma_separated: "join '', '' xs = comma_separated xs"
  by (simp add: join_concat [of "'', ''" xs] comma_separated_def)

text \<open>
  Claim C7. The aggregation has one row for each region present in the filtered
  table and no other row; the row of a region carries the number of the region's
  foods and the comma-separated concatenation of the region's Notes, in table order.
\<close>

theorem region_df_rows:
  "region_df fd =
    map (\<lambda>r. \<lparr>agg_Region = r,
               agg_Food = length (filter (\<lambda>x. Region x = r) fd),
               agg_Notes = comma_separated (map Notes (filter (\<lambda>x. Region x = r) fd))\<rparr>)
      (sorted_unique (map Region fd))"
  by (simp add: region_df_def groupby_eq comp_def join_comma_separated)

text \<open>On a table of two western foods and a northern one, written out.\<close>

lemma region_df_sample:
  "map (\<lambda>r. \<lparr>agg_Region = r,
             agg_Food = length (filter (\<lambda>x. Region x = r) [rice, apple, yam]),
             agg_Notes =
               comma_separated (map Notes (filter (\<lambda>x. Region x = r) [rice, apple, yam]))\<rparr>)
     (sorted_unique (map Region [rice, apple, yam])) =
   [\<lparr>agg_Region = ''North'', agg_Food = 1, agg_Notes = ''Fresh''\<rparr>,
    \<lparr>agg_Region = ''West'', agg_Food = 2, agg_Notes = ''Staple (boiled), Pounded''\<rparr>]"
  by code_simp

theorem region_df_rows_witness:
  "region_df [rice, apple, yam] =
   [\<lparr>agg_Region = ''North'', agg_Food = 1, agg_Notes = ''Fresh''\<rparr>,
    \<lparr>agg_Region = ''West'', agg_Food = 2, agg_Notes = ''Staple (boiled), Pounded''\<rparr>]"
  unfolding region_df_rows by (rule region_df_sample)

subsection \<open>The meal generator\<close>

lemma random_choice_ok:
  "xs \<noteq> [] \<Longrightarrow> random_choice g n xs = Inr (xs ! (g n mod length xs), Suc n)"
  by (simp add: random_choice_def)

lemma foods_in_empty_iff: "foods_in c lf = [] \<longleftrightarrow> c \<notin> set (map Category lf)"
  by (auto simp: foods_in_def filter_empty_conv)

lemma icon_lookups:
  "dict_get category_icons ''Carbohydrates'' icon_bread = icon_bread"
  "dict_get category_icons ''Proteins'' icon_poultry = icon_poultry"
  "dict_get category_icons ''Vegetables'' icon_broccoli = icon_broccoli"
  "dict_get category_icons ''Fruits'' icon_apple = icon_apple"
  by (simp_all add: dict_get_def category_icons_def)

text \<open>
  The generator returns for every table. A slot is blank when one of its lists is
  empty, and a slot that is not blank starts with an icon and a space.
\<close>

lemma generate_day_meal_shape:
  "\<exists>d n'. generate_day_meal g n lf = Inr (d, n') \<and>
     ((foods_in ''Carbohydrates'' lf = [] \<or> foods_in ''Fruits'' lf = []) \<longrightarrow> Breakfast d = []) \<and>
     ((foods_in ''Carbohydrates'' lf = [] \<or> foods_in ''Proteins'' lf = [] \<or>
       foods_in ''Vegetables'' lf = []) \<longrightarrow> Lunch d = [] \<and> Dinner d = []) \<and>
     (foods_in ''Fruits'' lf = [] \<longrightarrow> Snack d = []) \<and>
     (Breakfast d = [] \<or> (\<exists>rest. Breakfast d = icon_bread @ '' '' @ rest)) \<and>
     (Lunch d = [] \<or> (\<exists>rest. Lunch d = icon_bread @ '' '' @ rest)) \<and>
     (Dinner d = [] \<or> (\<exists>rest. Dinner d = icon_bread @ '' '' @ rest)) \<and>
     (Snack d = [] \<or> (\<exists>rest. Snack d = icon_apple @ '' '' @ rest))"
proof (cases "foods_in ''Carbohydrates'' lf = []")
  case c: True
  show ?thesis
  proof (cases "foods_in ''Fruits'' lf = []")
    case True
    with c show ?thesis
      by (simp add: generate_day_meal_def Let_def bind_res_Inr)
  next
    case False
    with c show ?thesis
      by (simp add: generate_day_meal_def Let_def bind_res_Inr random_choice_ok icon_lookups)
  qed
next
  case c: False
  show ?thesis
  proof (cases "foods_in ''Fruits'' lf = []")
    case f: True
    show ?thesis
    proof (cases "foods_in ''Proteins'' lf \<noteq> [] \<and> foods_in ''Vegetables'' lf \<noteq> []")
      case True
      with c f show ?thesis
        by (simp add: generate_day_meal_def Let_def bind_res_Inr random_choice_ok icon_lookups)
    next
      case False
      with c f show ?thesis
        by (simp add: generate_day_meal_def Let_def bind_res_Inr random_choice_ok icon_lookups)
    qed
  next
    case f: False
    show ?thesis
    proof (cases "foods_in ''Proteins'' lf \<noteq> [] \<and> foods_in ''Vegetables'' lf \<noteq> []")
      case True
      with c f show ?thesis
        by (simp add: generate_day_meal_def Let_def bind_res_Inr random_choice_ok icon_lookups)
    next
      case False
      with c f show ?thesis
        by (simp add: generate_day_meal_def Let_def bind_res_Inr random_choice_ok icon_lookups)
    qed
  qed
qed

text \<open>
  Claim C4. When a category a slot needs is absent from the filtered table
  (Breakfast: Carbohydrates and Fruits; Lunch and Dinner: Carbohydrates, Proteins and
  Vegetables; Snack: Fruits), the generator returns a day whose slot is the empty
  string; it does not raise.
\<close>

theorem generate_day_meal_blank_slots:
  "\<exists>d n'. generate_day_meal g n lf = Inr (d, n') \<and>
     ((''Carbohydrates'' \<notin> set (map Category lf) \<or> ''Fruits'' \<notin> set (map Category lf))
        \<longrightarrow> Breakfast d = []) \<and>
     ((''Carbohydrates'' \<notin> set (map Category lf) \<or> ''Proteins'' \<notin> set (map Category lf) \<or>
       ''Vegetables'' \<notin> set (map Category lf)) \<longrightarrow> Lunch d = [] \<and> Dinner d = []) \<and>
     (''Fruits'' \<notin> set (map Category lf) \<longrightarrow> Snack d = [])"
  using generate_day_meal_shape [of g n lf] unfolding foods_in_empty_iff by blast

theorem generate_day_meal_blank_slots_witness:
  "\<exists>d n'. generate_day_meal (\<lambda>i. 0) 0 [rice] = Inr (d, n') \<and>
     Breakfast d = [] \<and> Lunch d = [] \<and> Dinner d = [] \<and> Snack d = []"
  using generate_day_meal_blank_slots [of "\<lambda>i. 0" 0 "[rice]"]
  by (simp add: rice_def)

text \<open>
  Claim C9. The generator is total: on every table, empty ones included, it returns
  a day. \<open>random_choice\<close> raises on an empty list, so a call on one would show as an
  error here.
\<close>

theorem generate_day_meal_total: "\<exists>d n'. generate_day_meal g n lf = Inr (d, n')"
  using generate_day_meal_shape [of g n lf] by blast

subsection \<open>The plan loop\<close>

lemma map_fst_dict_set:
  "map fst (dict_set k v d) = (if k \<in> set (map fst d) then map fst d else map fst d @ [k])"
proof (induction d)
  case Nil
  show ?case by simp
next
  case (Cons p d)
  obtain k' v' where p: "p = (k', v')" by (cases p)
  show ?case
  proof (cases "k' = k")
    case True
    with p show ?thesis by simp
  next
    case False
    with p Cons.IH show ?thesis by (cases "k \<in> set (map fst d)") simp_all
  qed
qed

text \<open>The loop always finishes; its keys are the dates of the passes, a repeated date once.\<close>

lemma plan_loop_keys:
  "\<exists>plan' n'. plan_loop clock g lf is n plan = Inr (plan', n') \<and>
     map fst plan' =
       foldl (\<lambda>ks k. if k \<in> set ks then ks else ks @ [k]) (map fst plan)
         (map (\<lambda>i. clock i + int i) is)"
proof (induction "is" arbitrary: n plan)
  case Nil
  show ?case by simp
next
  case (Cons i rest)
  obtain meals n1 where m: "generate_day_meal g n lf = Inr (meals, n1)"
    using generate_day_meal_shape [of g n lf] by blast
  from Cons.IH [of n1 "dict_set (clock i + int i) meals plan"] m
  show ?case by (simp add: bind_res_Inr Let_def map_fst_dict_set)
qed

lemma upt_7: "[0..<7] = [0, 1, 2, 3, 4, 5, 6]"
  by (simp add: upt_rec)

lemma generate_plan_keys:
  "\<exists>plan n. generate_plan clock g lf = Inr (plan, n) \<and>
     map fst plan =
       foldl (\<lambda>ks k. if k \<in> set ks then ks else ks @ [k]) []
         (map (\<lambda>i. clock i + int i) [0, 1, 2, 3, 4, 5, 6])"
  using plan_loop_keys [of clock g lf "[0..<7]" 0 "[]"]
  by (simp add: generate_plan_def upt_7)

text \<open>
  While the clock shows one date at all seven passes, the plan has seven entries,
  keyed by that date and the six dates after it, in order.
\<close>

lemma plan_same_day:
  assumes "\<And>i. i < 7 \<Longrightarrow> clock i = today"
  shows "\<exists>plan n. generate_plan clock g lf = Inr (plan, n) \<and>
     map fst plan = map (\<lambda>i. today + int i) [0..<7]"
proof -
  from assms have "clock 0 = today" "clock 1 = today" "clock 2 = today" "clock 3 = today"
    "clock 4 = today" "clock 5 = today" "clock 6 = today"
    by simp_all
  with generate_plan_keys [of clock g lf] show ?thesis
    by (simp add: upt_7)
qed

text \<open>
  Claim C2. Every generated plan has exactly seven entries, keyed by consecutive
  dates starting today. The loop reads the clock at every pass. When midnight falls
  between the first pass and the second (the clock shows day 0, then day 1), the keys
  are day 0 and days 2 to 7: seven entries, and day 1 is missing.
\<close>

theorem plan_across_midnight:
  "\<exists>plan n. generate_plan (\<lambda>i. if i = 0 then 0 else 1) g lf = Inr (plan, n) \<and>
     map fst plan = [0, 2, 3, 4, 5, 6, 7]"
  using generate_plan_keys [of "\<lambda>i. if i = 0 then 0 else 1" g lf] by simp

subsection \<open>The score loop\<close>

lemma split_from_nonempty: "split_from sep m acc s \<noteq> []"
  by (induction sep m acc s rule: split_from.induct) (subst split_from.simps, simp)

lemma split_from_zero: "split_from sep (Some 0) acc s = [rev acc @ s]"
proof (induction s arbitrary: acc)
  case Nil
  show ?case by (subst split_from.simps) simp
next
  case (Cons c s)
  show ?case by (subst split_from.simps) (simp add: Cons.IH)
qed

lemma split_space_once:
  "CHR '' '' \<notin> set pre \<Longrightarrow>
   split_from '' '' (Some 1) acc (pre @ CHR '' '' # rest) = [rev acc @ pre, rest]"
proof (induction pre arbitrary: acc)
  case Nil
  show ?case by (subst split_from.simps) (simp add: split_from_zero)
next
  case (Cons c pre)
  then show ?case by (subst split_from.simps) simp
qed

lemma after_icon_ok:
  "CHR '' '' \<notin> set pre \<Longrightarrow> after_icon (pre @ '' '' @ rest) = Inr rest"
  using split_space_once [of pre "[]" rest]
  by (simp add: after_icon_def py_split_def item_at_def)

lemma after_icon_bread: "after_icon (icon_bread @ '' '' @ rest) = Inr rest"
  by (rule after_icon_ok) (simp add: icon_bread_def)

lemma after_icon_apple: "after_icon (icon_apple @ '' '' @ rest) = Inr rest"
  by (rule after_icon_ok) (simp add: icon_apple_def)

lemma py_split_empty: "py_split sep m [] = [[]]"
  unfolding py_split_def by (subst split_from.simps) simp

lemma py_split_nonempty: "py_split sep m s \<noteq> []"
  by (simp add: py_split_def split_from_nonempty)

lemma map_res_total:
  "(\<And>v. v \<in> set vs \<Longrightarrow> \<exists>y. f v = Inr y) \<Longrightarrow> \<exists>ys. map_res f vs = Inr ys"
proof (induction vs)
  case Nil
  show ?case by simp
next
  case (Cons v vs)
  from Cons.prems obtain y where y: "f v = Inr y" by auto
  from Cons obtain ys where "map_res f vs = Inr ys" by auto
  with y show ?case by (simp add: bind_res_Inr)
qed

text \<open>On a generated day the token list is computed without error and is not empty.\<close>

lemma foods_list_generated:
  assumes "generate_day_meal g n lf = Inr (d, n')"
  shows "\<exists>fl. foods_list d = Inr fl \<and> fl \<noteq> []"
proof -
  from generate_day_meal_shape [of g n lf] assms
  have shape:
    "Breakfast d = [] \<or> (\<exists>rest. Breakfast d = icon_bread @ '' '' @ rest)"
    "Lunch d = [] \<or> (\<exists>rest. Lunch d = icon_bread @ '' '' @ rest)"
    "Dinner d = [] \<or> (\<exists>rest. Dinner d = icon_bread @ '' '' @ rest)"
    "Snack d = [] \<or> (\<exists>rest. Snack d = icon_apple @ '' '' @ rest)"
    by auto
  have "\<exists>y. after_icon v = Inr y" if "v \<in> set (filter (\<lambda>v. v \<noteq> []) (slot_values d))" for v
  proof -
    from that have "v \<noteq> []" and "v \<in> set (slot_values d)"
      by auto
    then have "v \<noteq> []" and "v \<in> {Breakfast d, Lunch d, Dinner d, Snack d}"
      by (auto simp: slot_values_def)
    with shape
    have "(\<exists>rest. v = icon_bread @ '' '' @ rest) \<or> (\<exists>rest. v = icon_apple @ '' '' @ rest)"
      by auto
    then show ?thesis
      using after_icon_bread after_icon_apple by metis
  qed
  then obtain parts
    where "map_res after_icon (filter (\<lambda>v. v \<noteq> []) (slot_values d)) = Inr parts"
    using map_res_total by blast
  then show ?thesis
    by (simp add: foods_list_def bind_res_Inr py_split_nonempty)
qed

lemma foods_list_blank:
  assumes "slot_values d = [[], [], [], []]"
  shows "foods_list d = Inr [[]]"
  using assms by (simp add: foods_list_def bind_res_Inr py_split_empty)

lemma day_score_blank:
  assumes "[] \<notin> set (map Food lf)"
  shows "day_score lf [[]] = 0"
proof -
  from assms have "Food r \<noteq> []" if "r \<in> set lf" for r
    using that by force
  then have "filter (\<lambda>r. isin (Food r) [[]]) lf = []"
    by (simp add: filter_empty_conv isin_def)
  then show ?thesis by (simp add: day_score_def score_sum_def)
qed

text \<open>The day drawn from a table of one carbohydrate and one fruit, and its score.\<close>

lemma rice_apple_day:
  "generate_day_meal g n [rice, apple] =
     Inr (\<lparr>Breakfast = icon_bread @ '' Rice + '' @ icon_apple @ '' Apple'', Lunch = [],
           Dinner = [], Snack = icon_apple @ '' Apple''\<rparr>, n + 3)"
  by (simp add: generate_day_meal_def foods_in_def rice_def apple_def Let_def bind_res_Inr
      random_choice_def icon_lookups)

lemma rice_apple_tokens:
  "foods_list \<lparr>Breakfast = icon_bread @ '' Rice + '' @ icon_apple @ '' Apple'', Lunch = [],
       Dinner = [], Snack = icon_apple @ '' Apple''\<rparr> =
     Inr [''Rice'', icon_apple @ '' Apple'', ''Apple'']"
  by code_simp

lemma rice_apple_score:
  "day_score [rice, apple] [''Rice'', icon_apple @ '' Apple'', ''Apple''] = 4"
  by (simp add: day_score_def score_sum_def isin_def rice_def apple_def icon_apple_def)

text \<open>
  Claim C3. The score reported for a day is the average of the scores of the foods
  chosen for the day's slots. In the script only the first icon of a slot is cut off
  before the slots are joined and split again, so every later food of a slot keeps
  its icon and matches no row. On the table of Rice (score 4) and Apple (score 8) the
  day is Rice and Apple for breakfast and Apple as the snack; the tokens are Rice, the
  apple icon with Apple, and Apple; the reported score is 4, while the average of the
  three chosen foods' scores is 20/3.
\<close>

theorem daily_score_counts_first_foods:
  "generate_day_meal g n [rice, apple] =
     Inr (\<lparr>Breakfast = icon_bread @ '' Rice + '' @ icon_apple @ '' Apple'', Lunch = [],
           Dinner = [], Snack = icon_apple @ '' Apple''\<rparr>, n + 3) \<and>
   foods_list \<lparr>Breakfast = icon_bread @ '' Rice + '' @ icon_apple @ '' Apple'', Lunch = [],
       Dinner = [], Snack = icon_apple @ '' Apple''\<rparr> =
     Inr [''Rice'', icon_apple @ '' Apple'', ''Apple''] \<and>
   day_score [rice, apple] [''Rice'', icon_apple @ '' Apple'', ''Apple''] = 4 \<and>
   mean [Anti_Inflam rice, Anti_Inflam apple, Anti_Inflam apple] = Num (20 / 3)"
proof -
  have m: "mean [Anti_Inflam rice, Anti_Inflam apple, Anti_Inflam apple] = Num (20 / 3)"
    by (simp add: mean_def rice_def apple_def)
  show ?thesis
    by (intro conjI rice_apple_day rice_apple_tokens rice_apple_score m)
qed

text \<open>
  For every generated day the token list is computed without error and is not
  empty, so the average divides by a positive length. When every slot is blank the
  list is the single empty string, and the day's score is 0 on a table in which no
  row has the empty string as its Food.
\<close>

lemma blank_day_tokens:
  assumes "generate_day_meal g n lf = Inr (d, n')"
  shows "\<exists>fl. foods_list d = Inr fl \<and> fl \<noteq> [] \<and>
     (slot_values d = [[], [], [], []] \<longrightarrow>
        fl = [[]] \<and> ([] \<notin> set (map Food lf) \<longrightarrow> day_score lf fl = 0))"
proof (cases "slot_values d = [[], [], [], []]")
  case True
  then show ?thesis
    by (simp add: foods_list_blank day_score_blank)
next
  case False
  with foods_list_generated [OF assms] show ?thesis by auto
qed

lemma nameless_day:
  "generate_day_meal g n [nameless] =
      Inr (\<lparr>Breakfast = [], Lunch = [], Dinner = [], Snack = []\<rparr>, n)"
  by (simp add: generate_day_meal_def foods_in_def nameless_def Let_def bind_res_Inr)

lemma nameless_score: "day_score [nameless] [[]] = 5"
  by (simp add: nameless_def day_score_def score_sum_def isin_def)

lemma nameless_week:
  "bind_res (generate_plan (\<lambda>i. 0) (\<lambda>i. 0) [nameless])
     (\<lambda>(plan, k). daily_scores [nameless] (dict_values plan)) =
   Inr [5, 5, 5, 5, 5, 5, 5]"
  by code_simp

text \<open>
  Claim C10. The token list of a day is never empty, so the average never divides
  by zero, and an all-blank day scores 0. The first two hold (see above); the third
  fails on a table whose only row has the empty string as its Food and a category no
  slot uses. Every slot of the day is blank and no food was chosen, the token list is
  the single empty string, the empty string matches that row, and the day's score is
  the row's score, 5, on each of the seven days. The test \<^verbatim>\<open>if foods_list\<close> of line 166
  never sends the score to 0, because the list is never empty.
\<close>

theorem blank_day_scores_nameless_row:
  "generate_day_meal g n [nameless] =
      Inr (\<lparr>Breakfast = [], Lunch = [], Dinner = [], Snack = []\<rparr>, n) \<and>
   foods_list \<lparr>Breakfast = [], Lunch = [], Dinner = [], Snack = []\<rparr> = Inr [[]] \<and>
   day_score [nameless] [[]] = 5 \<and>
   bind_res (generate_plan (\<lambda>i. 0) (\<lambda>i. 0) [nameless])
     (\<lambda>(plan, k). daily_scores [nameless] (dict_values plan)) =
   Inr [5, 5, 5, 5, 5, 5, 5]"
proof -
  have tokens: "foods_list \<lparr>Breakfast = [], Lunch = [], Dinner = [], Snack = []\<rparr> = Inr [[]]"
    by (rule foods_list_blank) (simp add: slot_values_def)
  show ?thesis
    by (intro conjI nameless_day tokens nameless_score nameless_week)
qed

subsection \<open>The source table\<close>

lemma exec_filter_frame:
  assumes "separate a s"
  shows "same_at a s (snd (exec_filter lib rs cs q s))"
  using assms
  by (auto simp: exec_filter_def same_at_def separate_def new_obj_def Let_def
      split: option.splits frame.splits sum.splits)

lemma exec_add_icon_frame:
  assumes "separate a s"
  shows "same_at a s (snd (exec_add_icon s))"
  using assms
  by (auto simp: exec_add_icon_def same_at_def separate_def set_obj_def
      split: option.splits frame.splits)

lemma exec_table_view_frame:
  assumes "separate a s"
  shows "same_at a s (snd (exec_table_view s))"
  using assms
  by (auto simp: exec_table_view_def same_at_def separate_def new_obj_def Let_def
      split: option.splits frame.splits)

lemma exec_top_foods_frame:
  assumes "separate a s"
  shows "same_at a s (snd (exec_top_foods s))"
  using assms
  by (auto simp: exec_top_foods_def same_at_def separate_def new_obj_def set_obj_def Let_def
      split: option.splits frame.splits)

lemma exec_aggregate_frame:
  assumes "separate a s"
  shows "same_at a s (snd (exec_aggregate s))"
  using assms
  by (auto simp: exec_aggregate_def same_at_def separate_def new_obj_def Let_def
      split: option.splits frame.splits)

lemma plan_and_scores_frame:
  assumes "separate a s"
  shows "same_at a s (snd (plan_and_scores clock g rows s))"
  using assms
  by (auto simp: plan_and_scores_def same_at_def separate_def Let_def
      split: sum.splits prod.splits)

lemma exec_meal_plan_frame:
  assumes "separate a s"
  shows "same_at a s (snd (exec_meal_plan clock g s))"
proof (cases "var_filtered_df s")
  case None
  with assms show ?thesis by (simp add: exec_meal_plan_def same_at_def)
next
  case (Some b)
  show ?thesis
  proof (cases "objs s b")
    case None
    with Some assms show ?thesis by (simp add: exec_meal_plan_def same_at_def)
  next
    case (Some f)
    with \<open>var_filtered_df s = Some b\<close> assms show ?thesis
      by (cases f) (simp_all add: exec_meal_plan_def plan_and_scores_frame, simp add: same_at_def)
  qed
qed

lemma exec_frame:
  assumes "separate a s"
  shows "same_at a s (snd (exec lib x s))"
  using assms
  by (cases x)
    (simp_all add: exec_filter_frame exec_add_icon_frame exec_table_view_frame
      exec_top_foods_frame exec_aggregate_frame exec_meal_plan_frame)

lemma run_frame:
  assumes "separate a s"
  shows "same_at a s (snd (run lib ops s))"
  using assms
proof (induction ops arbitrary: s)
  case Nil
  then show ?case by (simp add: same_at_def)
next
  case (Cons x ops)
  obtain r s1 where e: "exec lib x s = (r, s1)" by (cases "exec lib x s")
  from exec_frame [OF Cons.prems, of lib x] e have s1: "same_at a s s1" by simp
  show ?case
  proof (cases r)
    case Done
    from s1 have "separate a s1" by (simp add: same_at_def)
    from Cons.IH [OF this] s1 e Done show ?thesis by (simp add: same_at_def)
  next
    case (Raised err)
    with s1 e show ?thesis by simp
  qed
qed

lemma fresh_names_frame:
  assumes "separate a s"
  shows "same_at a s (fresh_names s)"
  using assms by (simp add: same_at_def separate_def fresh_names_def)

lemma sessions_frame:
  assumes "separate a s"
  shows "same_at a s (sessions lib runs s)"
  using assms
proof (induction runs arbitrary: s)
  case Nil
  then show ?case by (simp add: same_at_def)
next
  case (Cons ops runs)
  from fresh_names_frame [OF Cons.prems] have f: "same_at a s (fresh_names s)" .
  then have "separate a (fresh_names s)" by (simp add: same_at_def)
  from run_frame [OF this, of lib ops]
  have r: "same_at a (fresh_names s) (snd (run lib ops (fresh_names s)))" .
  then have "separate a (snd (run lib ops (fresh_names s)))" by (simp add: same_at_def)
  from Cons.IH [OF this] f r show ?case by (simp add: same_at_def)
qed

text \<open>
  Claim C8. After any sequence of the script's operations (the filter, the icon
  column, the sorted table, the top ten, the aggregation, the meal plan), run from the
  state in which only the source table exists, the variable \<^verbatim>\<open>df\<close> refers to the same
  object and that object is the table it was, whether the run finished or stopped at
  an error, for every query and whatever the regular expression library makes of it.
  The same holds after any number of runs of the script, one after the other.
\<close>

theorem source_table_unchanged:
  "objs (snd (run lib ops (initial df))) (var_df (initial df)) = Some (Foods df) \<and>
   var_df (snd (run lib ops (initial df))) = var_df (initial df) \<and>
   objs (sessions lib runs (initial df)) (var_df (initial df)) = Some (Foods df) \<and>
   var_df (sessions lib runs (initial df)) = var_df (initial df)"
proof -
  have "separate (var_df (initial df)) (initial df)"
    by (simp add: separate_def initial_def)
  from run_frame [OF this, of lib ops] sessions_frame [OF this, of lib runs] show ?thesis
    by (simp add: same_at_def initial_def)
qed

text \<open>
  A whole run of the script with the query \<^verbatim>\<open>a+\<close>, which is left to the library, and
  with the button pressed: every operation finishes.
\<close>

lemma script_finishes:
  "fst (run finds_all (script [''North'', ''West''] [''Carbohydrates'', ''Fruits''] ''a+'' True
              (\<lambda>i. 0) (\<lambda>i. 0)) (initial [rice, apple])) = Done"
  by code_simp

theorem source_table_unchanged_witness:
  "fst (run finds_all (script [''North'', ''West''] [''Carbohydrates'', ''Fruits''] ''a+'' True
              (\<lambda>i. 0) (\<lambda>i. 0)) (initial [rice, apple])) = Done \<and>
   objs (snd (run finds_all
                (script [''North'', ''West''] [''Carbohydrates'', ''Fruits''] ''a+'' True
                    (\<lambda>i. 0) (\<lambda>i. 0)) (initial [rice, apple]))) 0 =
     Some (Foods [rice, apple]) \<and>
   objs (sessions finds_all
           [script [''West''] [''Carbohydrates''] ''('' False (\<lambda>i. 0) (\<lambda>i. 0),
            script [''North'', ''West''] [''Carbohydrates'', ''Fruits''] ''a+'' True
              (\<lambda>i. 0) (\<lambda>i. 0)]
           (initial [rice, apple])) 0 =
     Some (Foods [rice, apple])"
  using source_table_unchanged [of finds_all
      "script [''North'', ''West''] [''Carbohydrates'', ''Fruits''] ''a+'' True (\<lambda>i. 0) (\<lambda>i. 0)"
      "[rice, apple]"
      "[script [''West''] [''Carbohydrates''] ''('' False (\<lambda>i. 0) (\<lambda>i. 0),
        script [''North'', ''West''] [''Carbohydrates'', ''Fruits''] ''a+'' True
          (\<lambda>i. 0) (\<lambda>i. 0)]"]
    script_finishes
  by (simp add: initial_def)

end
